theory Spec2Isabelle
  imports Main "HOL-Library.Word"
begin

section \<open>Values shared by the packages\<close>

text \<open>
  \<open>syscall.Handle\<close> and \<open>syscall.Errno\<close> are both \<open>uintptr\<close>; the event code of a wait
  is a \<open>uint32\<close>. A Go string is a sequence of bytes, so \<open>len\<close> is \<open>length\<close>.
\<close>

type_synonym uintptr = "64 word"
type_synonym Handle = uintptr
type_synonym Errno = uintptr
type_synonym uint32 = "32 word"

text \<open>
  A Go \<open>error\<close> is either a \<open>syscall.Errno\<close>, the result of \<open>fmt.Errorf\<close> without
  \<open>%w\<close> (its text), the result of \<open>fmt.Errorf\<close> with a trailing \<open>%w\<close> (the text before
  the wrapped error, and the wrapped error), or the result of \<open>errors.Join\<close>.
  A nil \<open>error\<close> is \<open>None\<close> of \<open>error option\<close>.
\<close>

datatype error =
    ErrnoError Errno
  | ErrorString string
  | WrapError string error
  | JoinError "error list"

text \<open>
  \<open>errors.Join\<close> discards the nil errors and returns nil when none is left.
\<close>

definition errors_Join :: "error option list \<Rightarrow> error option" where
  "errors_Join errs =
     (case List.map_filter (\<lambda>e. e) errs of
        [] \<Rightarrow> None
      | es \<Rightarrow> Some (JoinError es))"

text \<open>
  A call either returns or panics. The value of a panic is the string or the error given to
  \<open>panic\<close>, or the run-time error of a method called through a nil pointer.
\<close>

datatype panic =
    PanicString string
  | PanicError error
  | NilDereference

datatype 'a outcome =
    Panics panic
  | Returns 'a

subsection \<open>Constants\<close>

text \<open>
  \<open>WaitAbandoned\<close> and \<open>WaitTimeout\<close> are declared by package \<open>synchapi\<close>. The others are
  constants of Go's \<open>syscall\<close> package and of the platform: \<open>WAIT_OBJECT_0\<close> is the event
  code of a wait that ended because the object was signaled, and \<open>EINVAL\<close> is one of the
  error numbers that \<open>syscall\<close> invents above \<open>1 << 29\<close>.
\<close>

definition WaitAbandoned :: uint32 where "WaitAbandoned = 0x00000080"
definition WaitTimeout :: uint32 where "WaitTimeout = 0x00000102"
definition WaitObject0 :: uint32 where "WaitObject0 = 0x00000000"
definition INFINITE :: uint32 where "INFINITE = 0xFFFFFFFF"
definition MAX_PATH :: nat where "MAX_PATH = 260"
definition ERROR_FILE_NOT_FOUND :: Errno where "ERROR_FILE_NOT_FOUND = 2"
definition ERROR_ALREADY_EXISTS :: Errno where "ERROR_ALREADY_EXISTS = 183"
definition EINVAL :: Errno where "EINVAL = 536870951"

section \<open>The operating system\<close>

text \<open>
  The procedures of \<open>kernel32.dll\<close> are not part of the program. They are a parameter of
  every operation below: each procedure takes the state of the operating system, of an
  arbitrary type \<open>'w\<close>, and returns its results and the next state. The three procedures
  reached through \<open>syscall.SyscallN\<close> return \<open>r0\<close> and the last-error number \<open>e\<close>;
  \<open>syscall.WaitForSingleObject\<close> returns an event code and an error, and
  \<open>syscall.CloseHandle\<close> an error. The name of a mutex is passed as a pointer, which is nil
  (\<open>None\<close>) for the empty name.
\<close>

record 'w kernel32 =
  procCreateMutex :: "bool \<Rightarrow> string option \<Rightarrow> 'w \<Rightarrow> (uintptr \<times> Errno) \<times> 'w"
  procOpenMutex :: "string option \<Rightarrow> 'w \<Rightarrow> (uintptr \<times> Errno) \<times> 'w"
  procReleaseMutex :: "Handle \<Rightarrow> 'w \<Rightarrow> (uintptr \<times> Errno) \<times> 'w"
  procWaitForSingleObject :: "Handle \<Rightarrow> uint32 \<Rightarrow> 'w \<Rightarrow> (uint32 \<times> error option) \<times> 'w"
  procCloseHandle :: "Handle \<Rightarrow> 'w \<Rightarrow> error option \<times> 'w"

text \<open>
  Every call of a procedure is recorded with its arguments and results, and so are the start
  and the exit of every goroutine that holds a locked operating system thread.
\<close>

datatype event =
    EvCreateMutex bool "string option" uintptr Errno
  | EvOpenMutex "string option" uintptr Errno
  | EvReleaseMutex Handle uintptr Errno
  | EvWaitForSingleObject Handle uint32 uint32 "error option"
  | EvCloseHandle Handle "error option"
  | EvThreadStart nat
  | EvThreadExit nat

section \<open>Package lockedthread\<close>

text \<open>
  A \<open>Thread\<close> holds the two channels \<open>cmds\<close> and \<open>done\<close> (here \<open>done_ch\<close>); the
  fields say whether the channel is non-nil. \<open>running\<close> is not a field of the struct: it
  says whether the goroutine started by \<open>New\<close>, which holds the locked operating system
  thread, has not yet returned.
  The \<open>sync.Mutex\<close> of the struct serialises concurrent callers and has no effect on a
  sequence of calls.
\<close>

record Thread =
  cmds :: bool
  done_ch :: bool
  running :: bool

text \<open>
  The state of the process: the state of the operating system, the \<open>Thread\<close> objects
  allocated so far (a \<open>*Thread\<close> is an index of the list), and the record of events.
\<close>

record 'w sys =
  world :: 'w
  threads :: "Thread list"
  trace :: "event list"

definition deref :: "'w sys \<Rightarrow> nat \<Rightarrow> Thread option" where
  "deref s p = (if p < length (threads s) then Some (threads s ! p) else None)"

definition lockedthread_New :: "'w sys \<Rightarrow> nat \<times> 'w sys" where
  "lockedthread_New s =
     (let p = length (threads s)
      in (p, s\<lparr>threads := threads s @ [\<lparr>cmds = True, done_ch = True, running = True\<rparr>],
                trace := trace s @ [EvThreadStart p]\<rparr>))"

text \<open>
  \<open>Run\<close> sends the function to the goroutine and waits until it has been executed there.
  A method called on a nil \<open>*Thread\<close> panics at its first access to the struct.
\<close>

definition Thread_Run ::
  "nat option \<Rightarrow> ('w sys \<Rightarrow> 'a \<times> 'w sys) \<Rightarrow> 'w sys \<Rightarrow> 'a outcome \<times> 'w sys" where
  "Thread_Run t f s =
     (case t of
        None \<Rightarrow> (Panics NilDereference, s)
      | Some p \<Rightarrow>
          (case deref s p of
             None \<Rightarrow> (Panics NilDereference, s)
           | Some th \<Rightarrow>
               if \<not> cmds th
               then (Panics (PanicString
                 ''lockedthread: Thread.Run() was called on a thread that has been closed''), s)
               else (case f s of (r, s') \<Rightarrow> (Returns r, s'))))"

text \<open>
  \<open>Close\<close> closes the command channel, on which the goroutine leaves its loop, unlocks its
  operating system thread and closes \<open>done\<close>; \<open>Close\<close> waits for that and sets both fields
  to nil.
\<close>

definition Thread_Close :: "nat option \<Rightarrow> 'w sys \<Rightarrow> error option outcome \<times> 'w sys" where
  "Thread_Close t s =
     (case t of
        None \<Rightarrow> (Panics NilDereference, s)
      | Some p \<Rightarrow>
          (case deref s p of
             None \<Rightarrow> (Panics NilDereference, s)
           | Some th \<Rightarrow>
               if \<not> cmds th then (Returns None, s)
               else (Returns None,
                     s\<lparr>threads := (threads s)[p := \<lparr>cmds = False, done_ch = False, running = False\<rparr>],
                       trace := trace s @ [EvThreadExit p]\<rparr>)))"

section \<open>Package synchapi\<close>

text \<open>
  \<open>syscall.UTF16PtrFromString\<close> returns \<open>EINVAL\<close> for a string with a NUL byte.
\<close>

definition UTF16PtrFromString :: "string \<Rightarrow> error option" where
  "UTF16PtrFromString nm = (if CHR 0x00 \<in> set nm then Some (ErrnoError EINVAL) else None)"

definition utf16Name :: "string \<Rightarrow> string option" where
  "utf16Name nm = (if nm \<noteq> [] then Some nm else None)"

definition CreateMutex ::
  "'w kernel32 \<Rightarrow> string \<Rightarrow> bool \<Rightarrow> 'w sys \<Rightarrow> (Handle \<times> bool \<times> error option) \<times> 'w sys" where
  "CreateMutex K nm initialOwner s =
     (if length nm + 1 \<ge> MAX_PATH
      then ((0, False, Some (ErrorString
        (''create mutex: name length exceeds the 260 character limit specified by MAX_PATH: '' @ nm))), s)
      else if nm \<noteq> [] \<and> UTF16PtrFromString nm \<noteq> None
      then ((0, False, UTF16PtrFromString nm), s)
      else (case procCreateMutex K initialOwner (utf16Name nm) (world s) of
        ((r0, e), w) \<Rightarrow>
          (let s' = s\<lparr>world := w,
                      trace := trace s @ [EvCreateMutex initialOwner (utf16Name nm) r0 e]\<rparr>
           in if e = ERROR_ALREADY_EXISTS then ((r0, True, None), s')
              else if e = 0 then ((r0, False, None), s')
              else ((r0, False, Some (ErrnoError e)), s'))))"

definition OpenMutex :: "'w kernel32 \<Rightarrow> string \<Rightarrow> 'w sys \<Rightarrow> (Handle \<times> error option) \<times> 'w sys" where
  "OpenMutex K nm s =
     (if length nm + 1 \<ge> MAX_PATH
      then ((0, Some (ErrorString
        (''open mutex: name length exceeds the 260 character limit specified by MAX_PATH: '' @ nm))), s)
      else if nm \<noteq> [] \<and> UTF16PtrFromString nm \<noteq> None
      then ((0, UTF16PtrFromString nm), s)
      else (case procOpenMutex K (utf16Name nm) (world s) of
        ((r0, e0), w) \<Rightarrow>
          (let s' = s\<lparr>world := w, trace := trace s @ [EvOpenMutex (utf16Name nm) r0 e0]\<rparr>;
               e = (if r0 = 0 \<and> e0 = 0 then EINVAL else e0);
               err = (if e \<noteq> 0 then Some (ErrnoError e) else None)
           in ((r0, err), s'))))"

definition ReleaseMutex :: "'w kernel32 \<Rightarrow> Handle \<Rightarrow> 'w sys \<Rightarrow> (bool \<times> error option) \<times> 'w sys" where
  "ReleaseMutex K h s =
     (case procReleaseMutex K h (world s) of
        ((r0, e), w) \<Rightarrow>
          ((r0 \<noteq> 0, if e \<noteq> 0 then Some (ErrnoError e) else None),
           s\<lparr>world := w, trace := trace s @ [EvReleaseMutex h r0 e]\<rparr>))"

subsection \<open>The two procedures called through package syscall\<close>

definition WaitForSingleObject ::
  "'w kernel32 \<Rightarrow> Handle \<Rightarrow> uint32 \<Rightarrow> 'w sys \<Rightarrow> (uint32 \<times> error option) \<times> 'w sys" where
  "WaitForSingleObject K h ms s =
     (case procWaitForSingleObject K h ms (world s) of
        ((ev, err), w) \<Rightarrow>
          ((ev, err), s\<lparr>world := w, trace := trace s @ [EvWaitForSingleObject h ms ev err]\<rparr>))"

definition CloseHandle :: "'w kernel32 \<Rightarrow> Handle \<Rightarrow> 'w sys \<Rightarrow> error option \<times> 'w sys" where
  "CloseHandle K h s =
     (case procCloseHandle K h (world s) of
        (err, w) \<Rightarrow> (err, s\<lparr>world := w, trace := trace s @ [EvCloseHandle h err]\<rparr>))"

section \<open>Package winmutex\<close>

text \<open>
  The \<open>sync.Mutex\<close> field of the struct is held for the whole of every method and released
  by a deferred call, also when the method panics; it has no effect on a sequence of calls.
  \<open>thread\<close> is a \<open>*lockedthread.Thread\<close>, nil when \<open>None\<close>.
\<close>

record Mutex =
  name :: string
  thread :: "nat option"
  handle :: Handle
  locked :: bool

definition mutexDescription :: "string \<Rightarrow> string" where
  "mutexDescription nm =
     (if nm = [] then ''an unnamed windows mutex''
      else ''the windows mutex named '' @ [CHR 0x22] @ nm @ [CHR 0x22])"

definition mutexWaitError :: "string \<Rightarrow> error \<Rightarrow> error" where
  "mutexWaitError nm err =
     WrapError (''winmutex: failed to wait for '' @ mutexDescription nm @ '': '') err"

text \<open>
  \<open>New\<close> returns a \<open>*Mutex\<close> (nil when \<open>None\<close>) and an error. The result of
  \<open>thread.Close()\<close> on the failure path is discarded.
\<close>

definition New :: "'w kernel32 \<Rightarrow> string \<Rightarrow> 'w sys \<Rightarrow> (Mutex option \<times> error option) outcome \<times> 'w sys" where
  "New K nm s =
     (case lockedthread_New s of
        (t, s1) \<Rightarrow>
          (case Thread_Run (Some t) (CreateMutex K nm False) s1 of
             (Panics p, s2) \<Rightarrow> (Panics p, s2)
           | (Returns (h, _, err), s2) \<Rightarrow>
               (case err of
                  Some e \<Rightarrow>
                    (case Thread_Close (Some t) s2 of
                       (Panics p, s3) \<Rightarrow> (Panics p, s3)
                     | (Returns _, s3) \<Rightarrow>
                         (Returns (None, Some (WrapError
                            (''winmutex: failed to create '' @ mutexDescription nm @ '': '') e)), s3))
                | None \<Rightarrow>
                    (Returns (Some \<lparr>name = nm, thread = Some t, handle = h, locked = False\<rparr>, None),
                     s2))))"

definition Name :: "Mutex \<Rightarrow> string" where
  "Name m = name m"

text \<open>
  Every method returns the struct as the call leaves it, also when the call panics: the
  caller still holds the pointer. The wait of \<open>Lock\<close> is modelled where it returns; a
  wait that blocks for ever has no result here.
\<close>

definition Lock :: "'w kernel32 \<Rightarrow> Mutex \<Rightarrow> 'w sys \<Rightarrow> unit outcome \<times> Mutex \<times> 'w sys" where
  "Lock K m s =
     (if thread m = None
      then (Panics (PanicString
        ''winmutex: Mutex.Lock() called on a mutex that has been closed''), m, s)
      else (case Thread_Run (thread m) (WaitForSingleObject K (handle m) INFINITE) s of
              (Panics p, s') \<Rightarrow> (Panics p, m, s')
            | (Returns (_, err), s') \<Rightarrow>
                (case err of
                   Some e \<Rightarrow> (Panics (PanicError (mutexWaitError (name m) e)), m, s')
                 | None \<Rightarrow> (Returns (), m\<lparr>locked := True\<rparr>, s'))))"

definition TryLock :: "'w kernel32 \<Rightarrow> Mutex \<Rightarrow> 'w sys \<Rightarrow> bool outcome \<times> Mutex \<times> 'w sys" where
  "TryLock K m s =
     (if thread m = None
      then (Panics (PanicString
        ''winmutex: Mutex.TryLock() called on a mutex that has been closed''), m, s)
      else (case Thread_Run (thread m) (WaitForSingleObject K (handle m) 0) s of
              (Panics p, s') \<Rightarrow> (Panics p, m, s')
            | (Returns (ev, err), s') \<Rightarrow>
                (case err of
                   Some e \<Rightarrow> (Panics (PanicError (mutexWaitError (name m) e)), m, s')
                 | None \<Rightarrow>
                     if ev = WaitTimeout then (Returns False, m, s')
                     else (Returns True, m\<lparr>locked := True\<rparr>, s'))))"

definition Unlock :: "'w kernel32 \<Rightarrow> Mutex \<Rightarrow> 'w sys \<Rightarrow> unit outcome \<times> Mutex \<times> 'w sys" where
  "Unlock K m s =
     (if \<not> locked m
      then (Panics (PanicString
        ''winmutex: Mutex.Unlock() called on a mutex that is not locked''), m, s)
      else (case Thread_Run (thread m) (ReleaseMutex K (handle m)) s of
              (Panics p, s') \<Rightarrow> (Panics p, m, s')
            | (Returns (released, err), s') \<Rightarrow>
                (case err of
                   Some e \<Rightarrow> (Panics (PanicError (WrapError ''winmutex: Mutex.Unlock(): '' e)), m, s')
                 | None \<Rightarrow>
                     if \<not> released
                     then (Panics (PanicString
                       ''winmutex: Mutex.Unlock() called on a mutex that was not locked, but was expected to be''),
                       m, s')
                     else (Returns (), m\<lparr>locked := False\<rparr>, s'))))"

text \<open>
  The function that \<open>Close\<close> runs on the thread: it releases the mutex when the struct is
  locked, then closes the handle, and leaves the two errors in \<open>err1\<close> and \<open>err2\<close>.
\<close>

definition Close_fn :: "'w kernel32 \<Rightarrow> Mutex \<Rightarrow> 'w sys \<Rightarrow> (error option \<times> error option) \<times> 'w sys" where
  "Close_fn K m s =
     (case (if locked m
            then (case ReleaseMutex K (handle m) s of ((_, err), s1) \<Rightarrow> (err, s1))
            else (None, s)) of
        (err1, s1) \<Rightarrow>
          (case CloseHandle K (handle m) s1 of
             (err2, s2) \<Rightarrow> ((err1, err2), s2)))"

definition Close :: "'w kernel32 \<Rightarrow> Mutex \<Rightarrow> 'w sys \<Rightarrow> error option outcome \<times> Mutex \<times> 'w sys" where
  "Close K m s =
     (if thread m \<noteq> None
      then
        (if handle m \<noteq> 0
         then
           (case Thread_Run (thread m) (Close_fn K m) s of
              (Panics p, s1) \<Rightarrow> (Panics p, m, s1)
            | (Returns (err1, err2), s1) \<Rightarrow>
                (let m1 = m\<lparr>handle := 0, locked := False\<rparr>
                 in case Thread_Close (thread m1) s1 of
                      (Panics p, s2) \<Rightarrow> (Panics p, m1, s2)
                    | (Returns err3, s2) \<Rightarrow>
                        (Returns (errors_Join [err1, err2, err3]), m1\<lparr>thread := None\<rparr>, s2)))
         else
           (case Thread_Close (thread m) s of
              (Panics p, s2) \<Rightarrow> (Panics p, m, s2)
            | (Returns err3, s2) \<Rightarrow>
                (Returns (errors_Join [None, None, err3]), m\<lparr>thread := None\<rparr>, s2)))
      else (Returns (errors_Join [None, None, None]), m, s))"

text \<open>
  \<open>Exists\<close> locks the calling operating system thread for the call, which has no effect on
  the results. The deferred \<open>CloseHandle\<close> runs when the function returns, and its result is
  discarded.
\<close>

definition Exists :: "'w kernel32 \<Rightarrow> string \<Rightarrow> 'w sys \<Rightarrow> (bool \<times> error option) \<times> 'w sys" where
  "Exists K nm s =
     (case OpenMutex K nm s of
        ((h, err), s1) \<Rightarrow>
          (case err of
             Some e \<Rightarrow>
               (case e of
                  ErrnoError n \<Rightarrow>
                    if n = ERROR_FILE_NOT_FOUND then ((False, None), s1)
                    else ((False, Some e), s1)
                | _ \<Rightarrow> ((False, Some e), s1))
           | None \<Rightarrow>
               (case CloseHandle K h s1 of
                  (_, s2) \<Rightarrow> ((True, None), s2))))"

section \<open>Notions used by the properties\<close>

text \<open>
  A \<open>*Thread\<close> is open when it is not nil and its command channel is not nil.
\<close>

definition thread_open :: "'w sys \<Rightarrow> nat option \<Rightarrow> bool" where
  "thread_open s t =
     (case t of
        None \<Rightarrow> False
      | Some p \<Rightarrow> (case deref s p of None \<Rightarrow> False | Some th \<Rightarrow> cmds th))"

text \<open>
  The threads whose goroutine still holds its locked operating system thread.
\<close>

definition allocated_threads :: "'w sys \<Rightarrow> nat list" where
  "allocated_threads s = filter (\<lambda>p. running (threads s ! p)) [0..<length (threads s)]"

text \<open>
  The handles that the recorded calls have left open: a call that creates or opens a mutex
  and returns a handle other than zero adds it, and a call of \<open>CloseHandle\<close> that returns
  no error removes it.
\<close>

fun handle_effect :: "event \<Rightarrow> Handle list \<Rightarrow> Handle list" where
  "handle_effect (EvCreateMutex _ _ r0 _) hs = (if r0 \<noteq> 0 then r0 # hs else hs)"
| "handle_effect (EvOpenMutex _ r0 _) hs = (if r0 \<noteq> 0 then r0 # hs else hs)"
| "handle_effect (EvCloseHandle h err) hs = (if err = None then remove1 h hs else hs)"
| "handle_effect _ hs = hs"

definition open_handles :: "event list \<Rightarrow> Handle list" where
  "open_handles tr = foldl (\<lambda>hs ev. handle_effect ev hs) [] tr"

text \<open>
  The platform documents that \<open>CreateMutexW\<close> returns a handle other than zero when it
  succeeds, with the last error zero or \<open>ERROR_ALREADY_EXISTS\<close>, and zero when it fails, with
  another last error. The predicate says so of one result of the procedure.
\<close>

definition create_result_documented :: "uintptr \<Rightarrow> Errno \<Rightarrow> bool" where
  "create_result_documented r0 e = ((r0 = 0) = (e \<noteq> 0 \<and> e \<noteq> ERROR_ALREADY_EXISTS))"

text \<open>
  The invariant of the struct: a locked mutex has a handle and a thread, and the handle is
  zero exactly when the thread is nil.
\<close>

definition mutex_inv :: "Mutex \<Rightarrow> bool" where
  "mutex_inv m =
     ((\<not> locked m \<or> (handle m \<noteq> 0 \<and> thread m \<noteq> None)) \<and>
      ((handle m \<noteq> 0) = (thread m \<noteq> None)))"

text \<open>
  Sequences of calls on one mutex. A caller that recovers from a panic still holds the
  mutex and may go on calling its methods, so a sequence continues after a panic with the
  struct as the panicking call left it.
\<close>

datatype call = CallLock | CallTryLock | CallUnlock | CallClose | CallName

fun call_step :: "'w kernel32 \<Rightarrow> call \<Rightarrow> Mutex \<times> 'w sys \<Rightarrow> Mutex \<times> 'w sys" where
  "call_step K CallLock (m, s) = snd (Lock K m s)"
| "call_step K CallTryLock (m, s) = snd (TryLock K m s)"
| "call_step K CallUnlock (m, s) = snd (Unlock K m s)"
| "call_step K CallClose (m, s) = snd (Close K m s)"
| "call_step K CallName (m, s) = (m, s)"

fun calls :: "'w kernel32 \<Rightarrow> call list \<Rightarrow> Mutex \<times> 'w sys \<Rightarrow> Mutex \<times> 'w sys" where
  "calls K [] ms = ms"
| "calls K (c # cs) ms = calls K cs (call_step K c ms)"

text \<open>
  \<open>Close\<close> called \<open>n\<close> times in a row, with the results of the calls in order.
\<close>

fun Close_times ::
  "'w kernel32 \<Rightarrow> nat \<Rightarrow> Mutex \<Rightarrow> 'w sys \<Rightarrow> error option outcome list \<times> Mutex \<times> 'w sys" where
  "Close_times K 0 m s = ([], m, s)"
| "Close_times K (Suc n) m s =
     (case Close K m s of
        (r, m1, s1) \<Rightarrow>
          (case Close_times K n m1 s1 of
             (rs, m2, s2) \<Rightarrow> (r # rs, m2, s2)))"

subsection \<open>A scripted operating system\<close>

text \<open>
  An operating system without state in which every procedure returns a fixed result, and
  the state of a process that has not started a thread. They give the concrete runs of the
  program below.
\<close>

definition scripted ::
  "(uintptr \<times> Errno) \<Rightarrow> (uintptr \<times> Errno) \<Rightarrow> (uintptr \<times> Errno) \<Rightarrow> (uint32 \<times> error option) \<Rightarrow>
   error option \<Rightarrow> unit kernel32" where
  "scripted cr op rl wt cl =
     \<lparr>procCreateMutex = (\<lambda>_ _ w. (cr, w)),
      procOpenMutex = (\<lambda>_ w. (op, w)),
      procReleaseMutex = (\<lambda>_ w. (rl, w)),
      procWaitForSingleObject = (\<lambda>_ _ w. (wt, w)),
      procCloseHandle = (\<lambda>_ w. (cl, w))\<rparr>"

definition boot :: "unit sys" where
  "boot = \<lparr>world = (), threads = [], trace = []\<rparr>"

section \<open>Running a function on an open thread\<close>

lemma Thread_Run_open:
  "thread_open s t \<Longrightarrow> Thread_Run t f s = (Returns (fst (f s)), snd (f s))"
  by (auto simp: thread_open_def Thread_Run_def split: option.splits prod.splits)

lemma Thread_Run_Returns:
  "Thread_Run t f s = (Returns r, s') \<Longrightarrow> thread_open s t \<and> f s = (r, s')"
  by (auto simp: thread_open_def Thread_Run_def split: option.splits prod.splits if_splits)

lemma thread_open_Some: "thread_open s t \<Longrightarrow> \<exists>p. t = Some p"
  by (auto simp: thread_open_def split: option.splits)

lemma Lock_open:
  assumes "thread_open s (thread m)"
    and "procWaitForSingleObject K (handle m) INFINITE (world s) = ((ev, err), w)"
  shows "Lock K m s =
     (case err of
        Some e \<Rightarrow> (Panics (PanicError (mutexWaitError (name m) e)), m,
                   s\<lparr>world := w, trace := trace s @ [EvWaitForSingleObject (handle m) INFINITE ev err]\<rparr>)
      | None \<Rightarrow> (Returns (), m\<lparr>locked := True\<rparr>,
                   s\<lparr>world := w, trace := trace s @ [EvWaitForSingleObject (handle m) INFINITE ev err]\<rparr>))"
proof -
  from assms(1) have "thread m \<noteq> None" by (auto simp: thread_open_def split: option.splits)
  then show ?thesis
    using assms by (simp add: Lock_def Thread_Run_open WaitForSingleObject_def split: option.splits)
qed

lemma TryLock_open:
  assumes "thread_open s (thread m)"
    and "procWaitForSingleObject K (handle m) 0 (world s) = ((ev, err), w)"
  shows "TryLock K m s =
     (case err of
        Some e \<Rightarrow> (Panics (PanicError (mutexWaitError (name m) e)), m,
                   s\<lparr>world := w, trace := trace s @ [EvWaitForSingleObject (handle m) 0 ev err]\<rparr>)
      | None \<Rightarrow>
          if ev = WaitTimeout
          then (Returns False, m,
                   s\<lparr>world := w, trace := trace s @ [EvWaitForSingleObject (handle m) 0 ev err]\<rparr>)
          else (Returns True, m\<lparr>locked := True\<rparr>,
                   s\<lparr>world := w, trace := trace s @ [EvWaitForSingleObject (handle m) 0 ev err]\<rparr>))"
proof -
  from assms(1) have "thread m \<noteq> None" by (auto simp: thread_open_def split: option.splits)
  then show ?thesis
    using assms by (simp add: TryLock_def Thread_Run_open WaitForSingleObject_def split: option.splits)
qed

section \<open>Outcomes of the wait in Lock and TryLock\<close>

text \<open>
  Claim C1, as stated, fails. The wait of \<open>Lock\<close> and \<open>TryLock\<close> is fatal only when it
  returns an error. A wait that returns the event code \<open>WaitAbandoned\<close> and no error is
  neither signaled nor timed out, and yet \<open>Lock\<close> returns with \<open>locked\<close> set, and
  \<open>TryLock\<close> returns true with \<open>locked\<close> set: \<open>Lock\<close> never reads the event code, and
  \<open>TryLock\<close> compares it with \<open>WaitTimeout\<close> only. The run below is on the mutex that
  \<open>New\<close> returns for the name \<open>m\<close>.
\<close>

theorem Lock_TryLock_abandoned_counterexample:
  "New (scripted (4, 0) (0, 2) (1, 0) (WaitAbandoned, None) None) ''m'' boot =
     (Returns (Some \<lparr>name = ''m'', thread = Some 0, handle = 4, locked = False\<rparr>, None),
      \<lparr>world = (), threads = [\<lparr>cmds = True, done_ch = True, running = True\<rparr>],
       trace = [EvThreadStart 0, EvCreateMutex False (Some ''m'') 4 0]\<rparr>) \<and>
   WaitAbandoned \<noteq> WaitObject0 \<and> WaitAbandoned \<noteq> WaitTimeout \<and>
   Lock (scripted (4, 0) (0, 2) (1, 0) (WaitAbandoned, None) None)
     \<lparr>name = ''m'', thread = Some 0, handle = 4, locked = False\<rparr>
     \<lparr>world = (), threads = [\<lparr>cmds = True, done_ch = True, running = True\<rparr>],
      trace = [EvThreadStart 0, EvCreateMutex False (Some ''m'') 4 0]\<rparr> =
     (Returns (), \<lparr>name = ''m'', thread = Some 0, handle = 4, locked = True\<rparr>,
      \<lparr>world = (), threads = [\<lparr>cmds = True, done_ch = True, running = True\<rparr>],
       trace = [EvThreadStart 0, EvCreateMutex False (Some ''m'') 4 0,
                EvWaitForSingleObject 4 INFINITE WaitAbandoned None]\<rparr>) \<and>
   TryLock (scripted (4, 0) (0, 2) (1, 0) (WaitAbandoned, None) None)
     \<lparr>name = ''m'', thread = Some 0, handle = 4, locked = False\<rparr>
     \<lparr>world = (), threads = [\<lparr>cmds = True, done_ch = True, running = True\<rparr>],
      trace = [EvThreadStart 0, EvCreateMutex False (Some ''m'') 4 0]\<rparr> =
     (Returns True, \<lparr>name = ''m'', thread = Some 0, handle = 4, locked = True\<rparr>,
      \<lparr>world = (), threads = [\<lparr>cmds = True, done_ch = True, running = True\<rparr>],
       trace = [EvThreadStart 0, EvCreateMutex False (Some ''m'') 4 0,
                EvWaitForSingleObject 4 0 WaitAbandoned None]\<rparr>)"
  by (simp add: New_def Lock_def TryLock_def lockedthread_New_def Thread_Run_def deref_def
      CreateMutex_def WaitForSingleObject_def scripted_def boot_def utf16Name_def
      UTF16PtrFromString_def MAX_PATH_def ERROR_ALREADY_EXISTS_def WaitAbandoned_def
      WaitObject0_def WaitTimeout_def)

text \<open>
  Claim C1, amended: on a mutex whose thread is open, \<open>Lock\<close> and \<open>TryLock\<close> panic with
  the wait error, and leave the struct as it was, exactly when the wait returns an error.
  When the wait returns no error, \<open>Lock\<close> sets \<open>locked\<close> and returns whatever the event
  code is; \<open>TryLock\<close> returns false and changes nothing when the event code is
  \<open>WaitTimeout\<close>, and otherwise sets \<open>locked\<close> and returns true.
\<close>

theorem Lock_TryLock_wait_error_fatal:
  assumes "thread_open s (thread m)"
    and "procWaitForSingleObject K (handle m) INFINITE (world s) = ((ev, err), w)"
    and "procWaitForSingleObject K (handle m) 0 (world s) = ((ev0, err0), w0)"
  shows "Lock K m s =
           (case err of
              Some e \<Rightarrow>
                (Panics (PanicError (mutexWaitError (name m) e)), m,
                 s\<lparr>world := w,
                   trace := trace s @ [EvWaitForSingleObject (handle m) INFINITE ev err]\<rparr>)
            | None \<Rightarrow>
                (Returns (), m\<lparr>locked := True\<rparr>,
                 s\<lparr>world := w,
                   trace := trace s @ [EvWaitForSingleObject (handle m) INFINITE ev err]\<rparr>)) \<and>
         TryLock K m s =
           (case err0 of
              Some e \<Rightarrow>
                (Panics (PanicError (mutexWaitError (name m) e)), m,
                 s\<lparr>world := w0,
                   trace := trace s @ [EvWaitForSingleObject (handle m) 0 ev0 err0]\<rparr>)
            | None \<Rightarrow>
                if ev0 = WaitTimeout
                then (Returns False, m,
                      s\<lparr>world := w0,
                        trace := trace s @ [EvWaitForSingleObject (handle m) 0 ev0 err0]\<rparr>)
                else (Returns True, m\<lparr>locked := True\<rparr>,
                      s\<lparr>world := w0,
                        trace := trace s @ [EvWaitForSingleObject (handle m) 0 ev0 err0]\<rparr>))"
  using Lock_open [OF assms(1) assms(2)] TryLock_open [OF assms(1) assms(3)] by simp

theorem Lock_TryLock_wait_error_fatal_witness:
  "Lock (scripted (4, 0) (0, 2) (1, 0) (0xFFFFFFFF, Some (ErrnoError 6)) None)
     \<lparr>name = ''m'', thread = Some 0, handle = 4, locked = False\<rparr>
     \<lparr>world = (), threads = [\<lparr>cmds = True, done_ch = True, running = True\<rparr>], trace = []\<rparr> =
     (Panics (PanicError (mutexWaitError ''m'' (ErrnoError 6))),
      \<lparr>name = ''m'', thread = Some 0, handle = 4, locked = False\<rparr>,
      \<lparr>world = (), threads = [\<lparr>cmds = True, done_ch = True, running = True\<rparr>],
       trace = [EvWaitForSingleObject 4 INFINITE 0xFFFFFFFF (Some (ErrnoError 6))]\<rparr>) \<and>
   TryLock (scripted (4, 0) (0, 2) (1, 0) (0xFFFFFFFF, Some (ErrnoError 6)) None)
     \<lparr>name = ''m'', thread = Some 0, handle = 4, locked = False\<rparr>
     \<lparr>world = (), threads = [\<lparr>cmds = True, done_ch = True, running = True\<rparr>], trace = []\<rparr> =
     (Panics (PanicError (mutexWaitError ''m'' (ErrnoError 6))),
      \<lparr>name = ''m'', thread = Some 0, handle = 4, locked = False\<rparr>,
      \<lparr>world = (), threads = [\<lparr>cmds = True, done_ch = True, running = True\<rparr>],
       trace = [EvWaitForSingleObject 4 0 0xFFFFFFFF (Some (ErrnoError 6))]\<rparr>)"
proof -
  let ?K = "scripted (4, 0) (0, 2) (1, 0) (0xFFFFFFFF, Some (ErrnoError 6)) None"
  let ?m = "\<lparr>name = ''m'', thread = Some 0, handle = 4, locked = False\<rparr>"
  let ?s = "\<lparr>world = (), threads = [\<lparr>cmds = True, done_ch = True, running = True\<rparr>],
             trace = []\<rparr> :: unit sys"
  have h1: "thread_open ?s (thread ?m)"
    by (simp add: thread_open_def deref_def)
  have h2: "procWaitForSingleObject ?K (handle ?m) INFINITE (world ?s) =
              ((0xFFFFFFFF, Some (ErrnoError 6)), ())"
    by (simp add: scripted_def)
  have h3: "procWaitForSingleObject ?K (handle ?m) 0 (world ?s) =
              ((0xFFFFFFFF, Some (ErrnoError 6)), ())"
    by (simp add: scripted_def)
  show ?thesis
    using Lock_TryLock_wait_error_fatal [OF h1 h2 h3] by simp
qed

section \<open>The first Close of an open mutex\<close>

lemma Thread_Close_open:
  "thread_open s (Some p) \<Longrightarrow>
   Thread_Close (Some p) s =
     (Returns None,
      s\<lparr>threads := (threads s)[p := \<lparr>cmds = False, done_ch = False, running = False\<rparr>],
        trace := trace s @ [EvThreadExit p]\<rparr>)"
  by (auto simp: thread_open_def Thread_Close_def split: option.splits)

lemma thread_open_threads:
  "threads s' = threads s \<Longrightarrow> thread_open s' t = thread_open s t"
  by (cases t) (simp_all add: thread_open_def deref_def)

lemma Close_fn_eq:
  assumes "procReleaseMutex K (handle m) (world s) = ((r0, e), w1)"
    and "procCloseHandle K (handle m) (if locked m then w1 else world s) = (err2, w2)"
  shows "Close_fn K m s =
           ((if locked m \<and> e \<noteq> 0 then Some (ErrnoError e) else None, err2),
            s\<lparr>world := w2,
              trace := trace s @ (if locked m then [EvReleaseMutex (handle m) r0 e] else []) @
                       [EvCloseHandle (handle m) err2]\<rparr>)"
  using assms by (cases "locked m") (simp_all add: Close_fn_def ReleaseMutex_def CloseHandle_def)

lemma Close_fn_threads: "threads (snd (Close_fn K m s)) = threads s"
  by (simp add: Close_fn_def ReleaseMutex_def CloseHandle_def split: prod.splits)

text \<open>
  Claim C4: the first \<open>Close\<close> of a mutex whose thread is open and whose handle is not zero
  calls \<open>ReleaseMutex\<close> first exactly when the struct is locked, then \<open>CloseHandle\<close>, then
  stops the thread. It returns the join of the error of the release, the error of
  \<open>CloseHandle\<close> and the (nil) result of closing the thread, and whatever these errors
  are it leaves \<open>locked\<close> false, the handle zero and the thread nil.
\<close>

theorem Close_first:
  assumes "thread m = Some p"
    and "thread_open s (thread m)"
    and "handle m \<noteq> 0"
    and "procReleaseMutex K (handle m) (world s) = ((r0, e), w1)"
    and "procCloseHandle K (handle m) (if locked m then w1 else world s) = (err2, w2)"
  shows "Close K m s =
           (Returns (errors_Join
              [if locked m \<and> e \<noteq> 0 then Some (ErrnoError e) else None, err2, None]),
            m\<lparr>handle := 0, locked := False, thread := None\<rparr>,
            \<lparr>world = w2,
             threads = (threads s)[p := \<lparr>cmds = False, done_ch = False, running = False\<rparr>],
             trace = trace s @ (if locked m then [EvReleaseMutex (handle m) r0 e] else []) @
                     [EvCloseHandle (handle m) err2, EvThreadExit p]\<rparr>)"
proof -
  let ?s1 = "s\<lparr>world := w2,
               trace := trace s @ (if locked m then [EvReleaseMutex (handle m) r0 e] else []) @
                        [EvCloseHandle (handle m) err2]\<rparr>"
  have run: "Thread_Run (thread m) (Close_fn K m) s =
               (Returns (if locked m \<and> e \<noteq> 0 then Some (ErrnoError e) else None, err2), ?s1)"
    using Thread_Run_open [OF assms(2), of "Close_fn K m"] Close_fn_eq [OF assms(4) assms(5)]
    by simp
  have "thread_open ?s1 (Some p)"
    using assms(1) assms(2) thread_open_threads [of ?s1 s "Some p"] by simp
  then have cl: "Thread_Close (Some p) ?s1 =
     (Returns None,
      ?s1\<lparr>threads := (threads ?s1)[p := \<lparr>cmds = False, done_ch = False, running = False\<rparr>],
          trace := trace ?s1 @ [EvThreadExit p]\<rparr>)"
    by (rule Thread_Close_open)
  show ?thesis
    using assms(1) assms(3) run cl by (simp add: Close_def)
qed

theorem Close_first_witness:
  "Close (scripted (4, 0) (0, 2) (1, 0) (0, None) (Some (ErrnoError 6)))
     \<lparr>name = ''m'', thread = Some 0, handle = 4, locked = True\<rparr>
     \<lparr>world = (), threads = [\<lparr>cmds = True, done_ch = True, running = True\<rparr>], trace = []\<rparr> =
     (Returns (Some (JoinError [ErrnoError 6])),
      \<lparr>name = ''m'', thread = None, handle = 0, locked = False\<rparr>,
      \<lparr>world = (), threads = [\<lparr>cmds = False, done_ch = False, running = False\<rparr>],
       trace = [EvReleaseMutex 4 1 0, EvCloseHandle 4 (Some (ErrnoError 6)), EvThreadExit 0]\<rparr>)"
proof -
  let ?K = "scripted (4, 0) (0, 2) (1, 0) (0, None) (Some (ErrnoError 6))"
  let ?m = "\<lparr>name = ''m'', thread = Some 0, handle = 4, locked = True\<rparr>"
  let ?s = "\<lparr>world = (), threads = [\<lparr>cmds = True, done_ch = True, running = True\<rparr>],
             trace = []\<rparr> :: unit sys"
  have h1: "thread ?m = Some 0" by simp
  have h2: "thread_open ?s (thread ?m)"
    by (simp add: thread_open_def deref_def)
  have h3: "handle ?m \<noteq> 0" by simp
  have h4: "procReleaseMutex ?K (handle ?m) (world ?s) = ((1, 0), ())"
    by (simp add: scripted_def)
  have h5: "procCloseHandle ?K (handle ?m) (if locked ?m then () else world ?s) =
              (Some (ErrnoError 6), ())"
    by (simp add: scripted_def)
  show ?thesis
    using Close_first [OF h1 h2 h3 h4 h5]
    by (simp add: errors_Join_def List.map_filter_simps)
qed

section \<open>Calls on a closed mutex\<close>

lemma Close_Returns_thread:
  assumes "Close K m s = (Returns e, m', s')"
  shows "thread m' = None"
proof (cases "thread m = None")
  case True
  with assms show ?thesis by (simp add: Close_def)
next
  case False
  show ?thesis
  proof (cases "handle m = 0")
    case True
    obtain r s2 where tc: "Thread_Close (thread m) s = (r, s2)"
      by (cases "Thread_Close (thread m) s")
    with assms False True show ?thesis
      by (cases r) (auto simp: Close_def)
  next
    case h: False
    obtain x s1 where run: "Thread_Run (thread m) (Close_fn K m) s = (x, s1)"
      by (cases "Thread_Run (thread m) (Close_fn K m) s")
    show ?thesis
    proof (cases x)
      case (Panics p)
      with assms False h run show ?thesis by (simp add: Close_def)
    next
      case (Returns errs)
      obtain r s2 where tc: "Thread_Close (thread m) s1 = (r, s2)"
        by (cases "Thread_Close (thread m) s1")
      with assms False h run Returns show ?thesis
        by (cases r; cases errs) (auto simp: Close_def)
    qed
  qed
qed

lemma Close_closed: "thread m = None \<Longrightarrow> Close K m s = (Returns None, m, s)"
  by (simp add: Close_def errors_Join_def List.map_filter_simps)

lemma Close_times_closed:
  "thread m = None \<Longrightarrow> Close_times K n m s = (replicate n (Returns None), m, s)"
  by (induction n) (simp_all add: Close_closed)

text \<open>
  A run of \<open>Close\<close> on a locked mutex, under an operating system whose \<open>CloseHandle\<close>
  fails.
\<close>

lemma Close_locked_run:
  "Close (scripted (4, 0) (0, 2) (1, 0) (0, None) (Some (ErrnoError 6)))
     \<lparr>name = ''m'', thread = Some 0, handle = 4, locked = True\<rparr>
     \<lparr>world = (), threads = [\<lparr>cmds = True, done_ch = True, running = True\<rparr>], trace = []\<rparr> =
     (Returns (Some (JoinError [ErrnoError 6])),
      \<lparr>name = ''m'', thread = None, handle = 0, locked = False\<rparr>,
      \<lparr>world = (), threads = [\<lparr>cmds = False, done_ch = False, running = False\<rparr>],
       trace = [EvReleaseMutex 4 1 0, EvCloseHandle 4 (Some (ErrnoError 6)), EvThreadExit 0]\<rparr>)"
  by (simp add: Close_def Close_fn_def Thread_Run_def Thread_Close_def deref_def
      ReleaseMutex_def CloseHandle_def scripted_def errors_Join_def List.map_filter_simps)

text \<open>
  Claim C5: when a call of \<open>Close\<close> has returned, every later call of \<open>Close\<close> returns nil
  and changes neither the struct nor the state of the process, so that it makes no native
  call: \<open>n + 1\<close> calls in a row give the result of the first call followed by \<open>n\<close> nil
  results, and leave what the first call left. Likewise \<open>Close\<close> of a \<open>Thread\<close> always
  returns nil, and called again it returns nil and changes nothing.
\<close>

theorem Close_idempotent:
  assumes "Close K m s = (Returns e, m', s')"
  shows "Close_times K (Suc n) m s = (Returns e # replicate n (Returns None), m', s') \<and>
         Close K m' s'' = (Returns None, m', s'') \<and>
         (Thread_Close t u = (Returns r, u') \<longrightarrow>
            r = None \<and> Thread_Close t u' = (Returns None, u'))"
proof -
  have closed: "thread m' = None"
    using assms by (rule Close_Returns_thread)
  have a: "Close_times K (Suc n) m s = (Returns e # replicate n (Returns None), m', s')"
    using assms Close_times_closed [OF closed, of K n s'] by simp
  have b: "Close K m' s'' = (Returns None, m', s'')"
    using closed by (rule Close_closed)
  have c: "r = None \<and> Thread_Close t u' = (Returns None, u')"
    if "Thread_Close t u = (Returns r, u')"
    using that
    by (cases t) (auto simp: Thread_Close_def deref_def split: option.splits if_splits)
  from a b c show ?thesis by blast
qed

theorem Close_idempotent_witness:
  "Close_times (scripted (4, 0) (0, 2) (1, 0) (0, None) (Some (ErrnoError 6))) (Suc 2)
     \<lparr>name = ''m'', thread = Some 0, handle = 4, locked = True\<rparr>
     \<lparr>world = (), threads = [\<lparr>cmds = True, done_ch = True, running = True\<rparr>], trace = []\<rparr> =
     (Returns (Some (JoinError [ErrnoError 6])) # replicate 2 (Returns None),
      \<lparr>name = ''m'', thread = None, handle = 0, locked = False\<rparr>,
      \<lparr>world = (), threads = [\<lparr>cmds = False, done_ch = False, running = False\<rparr>],
       trace = [EvReleaseMutex 4 1 0, EvCloseHandle 4 (Some (ErrnoError 6)), EvThreadExit 0]\<rparr>) \<and>
   Thread_Close (Some 0)
     (\<lparr>world = (), threads = [\<lparr>cmds = False, done_ch = False, running = False\<rparr>],
       trace = [EvThreadExit 0]\<rparr> :: unit sys) =
     (Returns None,
      \<lparr>world = (), threads = [\<lparr>cmds = False, done_ch = False, running = False\<rparr>],
       trace = [EvThreadExit 0]\<rparr>)"
proof -
  have h: "Thread_Close (Some 0)
     (\<lparr>world = (), threads = [\<lparr>cmds = True, done_ch = True, running = True\<rparr>],
       trace = []\<rparr> :: unit sys) =
     (Returns None,
      \<lparr>world = (), threads = [\<lparr>cmds = False, done_ch = False, running = False\<rparr>],
       trace = [EvThreadExit 0]\<rparr>)"
    by (simp add: Thread_Close_def deref_def)
  show ?thesis
    using Close_idempotent [OF Close_locked_run, where n = 2 and t = "Some 0"
      and u = "\<lparr>world = (), threads = [\<lparr>cmds = True, done_ch = True, running = True\<rparr>],
                 trace = []\<rparr>"
      and r = None
      and u' = "\<lparr>world = (), threads = [\<lparr>cmds = False, done_ch = False, running = False\<rparr>],
                 trace = [EvThreadExit 0]\<rparr>"] h
    by blast
qed

text \<open>
  Claim C3: when \<open>Close\<close> has returned, every later call of \<open>Lock\<close>, \<open>TryLock\<close> or
  \<open>Unlock\<close> panics, in every state of the process, and leaves the struct and the state as
  they were. \<open>Lock\<close> and \<open>TryLock\<close> panic because the thread is nil; \<open>Unlock\<close> panics
  because the struct is not locked, which is the case whenever the struct satisfied its
  invariant before \<open>Close\<close>.
\<close>

theorem Closed_calls_panic:
  assumes "Close K m s = (Returns e, m', s')"
  shows "Lock K m' s'' =
           (Panics (PanicString ''winmutex: Mutex.Lock() called on a mutex that has been closed''),
            m', s'') \<and>
         TryLock K m' s'' =
           (Panics (PanicString ''winmutex: Mutex.TryLock() called on a mutex that has been closed''),
            m', s'') \<and>
         Unlock K m' s'' =
           (Panics (if locked m' then NilDereference
                    else PanicString ''winmutex: Mutex.Unlock() called on a mutex that is not locked''),
            m', s'') \<and>
         (mutex_inv m \<longrightarrow> \<not> locked m')"
proof -
  have closed: "thread m' = None"
    using assms by (rule Close_Returns_thread)
  have inv: "\<not> locked m'" if i: "mutex_inv m"
  proof (cases "thread m = None")
    case True
    with assms i show ?thesis by (auto simp: Close_def mutex_inv_def)
  next
    case False
    with i have h: "handle m \<noteq> 0" by (simp add: mutex_inv_def)
    obtain x s1 where run: "Thread_Run (thread m) (Close_fn K m) s = (x, s1)"
      by (cases "Thread_Run (thread m) (Close_fn K m) s")
    show ?thesis
    proof (cases x)
      case (Panics p)
      with assms False h run show ?thesis by (simp add: Close_def)
    next
      case (Returns errs)
      obtain r s2 where tc: "Thread_Close (thread m) s1 = (r, s2)"
        by (cases "Thread_Close (thread m) s1")
      with assms False h run Returns show ?thesis
        by (cases r; cases errs) (auto simp: Close_def)
    qed
  qed
  show ?thesis
    using closed inv by (simp add: Lock_def TryLock_def Unlock_def Thread_Run_def)
qed

theorem Closed_calls_panic_witness:
  "mutex_inv \<lparr>name = ''m'', thread = Some 0, handle = 4, locked = True\<rparr> \<and>
   Lock (scripted (4, 0) (0, 2) (1, 0) (0, None) (Some (ErrnoError 6)))
     \<lparr>name = ''m'', thread = None, handle = 0, locked = False\<rparr> boot =
     (Panics (PanicString ''winmutex: Mutex.Lock() called on a mutex that has been closed''),
      \<lparr>name = ''m'', thread = None, handle = 0, locked = False\<rparr>, boot) \<and>
   TryLock (scripted (4, 0) (0, 2) (1, 0) (0, None) (Some (ErrnoError 6)))
     \<lparr>name = ''m'', thread = None, handle = 0, locked = False\<rparr> boot =
     (Panics (PanicString ''winmutex: Mutex.TryLock() called on a mutex that has been closed''),
      \<lparr>name = ''m'', thread = None, handle = 0, locked = False\<rparr>, boot) \<and>
   Unlock (scripted (4, 0) (0, 2) (1, 0) (0, None) (Some (ErrnoError 6)))
     \<lparr>name = ''m'', thread = None, handle = 0, locked = False\<rparr> boot =
     (Panics (PanicString ''winmutex: Mutex.Unlock() called on a mutex that is not locked''),
      \<lparr>name = ''m'', thread = None, handle = 0, locked = False\<rparr>, boot)"
proof -
  have i: "mutex_inv \<lparr>name = ''m'', thread = Some 0, handle = 4, locked = True\<rparr>"
    by (simp add: mutex_inv_def)
  show ?thesis
    using i Closed_calls_panic [OF Close_locked_run, where s'' = boot] by simp
qed

section \<open>Unlock and TryLock on an open mutex\<close>

lemma Unlock_open:
  assumes "locked m" and "thread_open s (thread m)"
    and "procReleaseMutex K (handle m) (world s) = ((r0, e), w)"
  shows "Unlock K m s =
        (if e \<noteq> 0
         then (Panics (PanicError (WrapError ''winmutex: Mutex.Unlock(): '' (ErrnoError e))), m,
               s\<lparr>world := w, trace := trace s @ [EvReleaseMutex (handle m) r0 e]\<rparr>)
         else if r0 = 0
         then (Panics (PanicString
                 ''winmutex: Mutex.Unlock() called on a mutex that was not locked, but was expected to be''),
               m, s\<lparr>world := w, trace := trace s @ [EvReleaseMutex (handle m) r0 e]\<rparr>)
         else (Returns (), m\<lparr>locked := False\<rparr>,
               s\<lparr>world := w, trace := trace s @ [EvReleaseMutex (handle m) r0 e]\<rparr>))"
proof -
  have "Thread_Run (thread m) (ReleaseMutex K (handle m)) s =
    (Returns (r0 \<noteq> 0, if e \<noteq> 0 then Some (ErrnoError e) else None),
     s\<lparr>world := w, trace := trace s @ [EvReleaseMutex (handle m) r0 e]\<rparr>)"
    using Thread_Run_open [OF assms(2), of "ReleaseMutex K (handle m)"] assms(3)
    by (simp add: ReleaseMutex_def)
  with assms(1) show ?thesis
    by (simp add: Unlock_def)
qed

lemma Unlock_Returns:
  assumes r: "Unlock K m s = (Returns u, m', s')"
  shows "locked m \<and> thread_open s (thread m) \<and>
      fst (ReleaseMutex K (handle m) s) = (True, None) \<and> m' = m\<lparr>locked := False\<rparr>"
proof -
  have l: "locked m"
  proof (rule ccontr)
    assume "\<not> locked m"
    with r show False by (simp add: Unlock_def)
  qed
  obtain x s1 where run: "Thread_Run (thread m) (ReleaseMutex K (handle m)) s = (x, s1)"
    by (cases "Thread_Run (thread m) (ReleaseMutex K (handle m)) s")
  from r l run obtain released err where x: "x = Returns (released, err)"
    by (cases x) (auto simp: Unlock_def)
  from r l run x have e: "err = None"
    by (cases err) (simp_all add: Unlock_def)
  from r l run x e have rel: "released"
    by (cases released) (simp_all add: Unlock_def)
  from r l run x e rel have m': "m' = m\<lparr>locked := False\<rparr>"
    by (simp add: Unlock_def)
  from run x have "Thread_Run (thread m) (ReleaseMutex K (handle m)) s = (Returns (released, err), s1)"
    by simp
  then have "thread_open s (thread m) \<and> ReleaseMutex K (handle m) s = ((released, err), s1)"
    by (rule Thread_Run_Returns)
  with l e rel m' show ?thesis by simp
qed

text \<open>
  Claim C6: \<open>Unlock\<close> panics, without a native call, when the struct is not locked. On a
  locked mutex whose thread is open it calls \<open>ReleaseMutex\<close>, and panics when the release
  reports an error, and also when it reports no error and that nothing was released;
  otherwise it returns and sets \<open>locked\<close> to false. Whenever \<open>Unlock\<close> returns, the struct
  was locked, the release reported no error and that the mutex was released, and the
  struct differs from what it was in \<open>locked\<close> only, which is false.
\<close>

theorem Unlock_outcomes:
  "(\<not> locked m \<longrightarrow>
      Unlock K m s =
        (Panics (PanicString ''winmutex: Mutex.Unlock() called on a mutex that is not locked''),
         m, s)) \<and>
   (locked m \<and> thread_open s (thread m) \<and>
    procReleaseMutex K (handle m) (world s) = ((r0, e), w) \<longrightarrow>
      Unlock K m s =
        (if e \<noteq> 0
         then (Panics (PanicError (WrapError ''winmutex: Mutex.Unlock(): '' (ErrnoError e))), m,
               s\<lparr>world := w, trace := trace s @ [EvReleaseMutex (handle m) r0 e]\<rparr>)
         else if r0 = 0
         then (Panics (PanicString
                 ''winmutex: Mutex.Unlock() called on a mutex that was not locked, but was expected to be''),
               m, s\<lparr>world := w, trace := trace s @ [EvReleaseMutex (handle m) r0 e]\<rparr>)
         else (Returns (), m\<lparr>locked := False\<rparr>,
               s\<lparr>world := w, trace := trace s @ [EvReleaseMutex (handle m) r0 e]\<rparr>))) \<and>
   (Unlock K m s = (Returns u, m', s') \<longrightarrow>
      locked m \<and> thread_open s (thread m) \<and>
      fst (ReleaseMutex K (handle m) s) = (True, None) \<and> m' = m\<lparr>locked := False\<rparr>)"
proof -
  have a: "Unlock K m s =
        (Panics (PanicString ''winmutex: Mutex.Unlock() called on a mutex that is not locked''),
         m, s)" if "\<not> locked m"
    using that by (simp add: Unlock_def)
  have b: "Unlock K m s =
        (if e \<noteq> 0
         then (Panics (PanicError (WrapError ''winmutex: Mutex.Unlock(): '' (ErrnoError e))), m,
               s\<lparr>world := w, trace := trace s @ [EvReleaseMutex (handle m) r0 e]\<rparr>)
         else if r0 = 0
         then (Panics (PanicString
                 ''winmutex: Mutex.Unlock() called on a mutex that was not locked, but was expected to be''),
               m, s\<lparr>world := w, trace := trace s @ [EvReleaseMutex (handle m) r0 e]\<rparr>)
         else (Returns (), m\<lparr>locked := False\<rparr>,
               s\<lparr>world := w, trace := trace s @ [EvReleaseMutex (handle m) r0 e]\<rparr>))"
    if "locked m \<and> thread_open s (thread m) \<and>
        procReleaseMutex K (handle m) (world s) = ((r0, e), w)"
  proof -
    from that have x: "locked m" and y: "thread_open s (thread m)"
      and z: "procReleaseMutex K (handle m) (world s) = ((r0, e), w)"
      by blast+
    show ?thesis by (rule Unlock_open [OF x y z])
  qed
  have c: "locked m \<and> thread_open s (thread m) \<and>
      fst (ReleaseMutex K (handle m) s) = (True, None) \<and> m' = m\<lparr>locked := False\<rparr>"
    if "Unlock K m s = (Returns u, m', s')"
    using that by (rule Unlock_Returns)
  from a b c show ?thesis by blast
qed

theorem Unlock_outcomes_witness:
  "Unlock (scripted (4, 0) (0, 2) (1, 0) (0, None) None)
     \<lparr>name = ''m'', thread = Some 0, handle = 4, locked = False\<rparr>
     \<lparr>world = (), threads = [\<lparr>cmds = True, done_ch = True, running = True\<rparr>], trace = []\<rparr> =
     (Panics (PanicString ''winmutex: Mutex.Unlock() called on a mutex that is not locked''),
      \<lparr>name = ''m'', thread = Some 0, handle = 4, locked = False\<rparr>,
      \<lparr>world = (), threads = [\<lparr>cmds = True, done_ch = True, running = True\<rparr>], trace = []\<rparr>) \<and>
   Unlock (scripted (4, 0) (0, 2) (1, 0) (0, None) None)
     \<lparr>name = ''m'', thread = Some 0, handle = 4, locked = True\<rparr>
     \<lparr>world = (), threads = [\<lparr>cmds = True, done_ch = True, running = True\<rparr>], trace = []\<rparr> =
     (Returns (), \<lparr>name = ''m'', thread = Some 0, handle = 4, locked = False\<rparr>,
      \<lparr>world = (), threads = [\<lparr>cmds = True, done_ch = True, running = True\<rparr>],
       trace = [EvReleaseMutex 4 1 0]\<rparr>) \<and>
   fst (ReleaseMutex (scripted (4, 0) (0, 2) (1, 0) (0, None) None) 4
     \<lparr>world = (), threads = [\<lparr>cmds = True, done_ch = True, running = True\<rparr>], trace = []\<rparr>) =
     (True, None)"
proof -
  let ?K = "scripted (4, 0) (0, 2) (1, 0) (0, None) None"
  let ?m0 = "\<lparr>name = ''m'', thread = Some 0, handle = 4, locked = False\<rparr>"
  let ?m1 = "\<lparr>name = ''m'', thread = Some 0, handle = 4, locked = True\<rparr>"
  let ?s = "\<lparr>world = (), threads = [\<lparr>cmds = True, done_ch = True, running = True\<rparr>],
             trace = []\<rparr> :: unit sys"
  have h0: "\<not> locked ?m0" by simp
  have h1: "locked ?m1 \<and> thread_open ?s (thread ?m1) \<and>
    procReleaseMutex ?K (handle ?m1) (world ?s) = ((1, 0), ())"
    by (simp add: thread_open_def deref_def scripted_def)
  have a: "Unlock ?K ?m0 ?s =
     (Panics (PanicString ''winmutex: Mutex.Unlock() called on a mutex that is not locked''),
      ?m0, ?s)"
    by (rule Unlock_outcomes [of ?m0 ?K ?s, THEN conjunct1, THEN mp, OF h0])
  have b: "Unlock ?K ?m1 ?s =
     (Returns (), ?m1\<lparr>locked := False\<rparr>,
      ?s\<lparr>world := (), trace := trace ?s @ [EvReleaseMutex (handle ?m1) 1 0]\<rparr>)"
    using Unlock_outcomes [of ?m1 ?K ?s 1 0 "()", THEN conjunct2, THEN conjunct1, THEN mp, OF h1]
    by simp
  have c: "fst (ReleaseMutex ?K (handle ?m1) ?s) = (True, None)"
    using Unlock_outcomes [THEN conjunct2, THEN conjunct2, THEN mp, OF b]
    by (elim conjE)
  from a b c show ?thesis by simp
qed

text \<open>
  Claim C7: on a mutex whose thread is open, \<open>TryLock\<close> waits with a timeout of zero. When
  the wait returns no error and the event code of a signaled object, \<open>TryLock\<close> returns true
  and sets \<open>locked\<close>; when it returns no error and the event code \<open>WaitTimeout\<close>,
  \<open>TryLock\<close> returns false and leaves every field of the struct as it was.
\<close>

theorem TryLock_outcomes:
  assumes "thread_open s (thread m)"
    and "procWaitForSingleObject K (handle m) 0 (world s) = ((ev, None), w)"
  shows "(ev = WaitObject0 \<longrightarrow>
            TryLock K m s =
              (Returns True, m\<lparr>locked := True\<rparr>,
               s\<lparr>world := w, trace := trace s @ [EvWaitForSingleObject (handle m) 0 ev None]\<rparr>)) \<and>
         (ev = WaitTimeout \<longrightarrow>
            TryLock K m s =
              (Returns False, m,
               s\<lparr>world := w, trace := trace s @ [EvWaitForSingleObject (handle m) 0 ev None]\<rparr>))"
  using TryLock_open [OF assms] by (simp add: WaitObject0_def WaitTimeout_def)

theorem TryLock_outcomes_witness:
  "TryLock (scripted (4, 0) (0, 2) (1, 0) (WaitObject0, None) None)
     \<lparr>name = ''m'', thread = Some 0, handle = 4, locked = False\<rparr>
     \<lparr>world = (), threads = [\<lparr>cmds = True, done_ch = True, running = True\<rparr>], trace = []\<rparr> =
     (Returns True, \<lparr>name = ''m'', thread = Some 0, handle = 4, locked = True\<rparr>,
      \<lparr>world = (), threads = [\<lparr>cmds = True, done_ch = True, running = True\<rparr>],
       trace = [EvWaitForSingleObject 4 0 WaitObject0 None]\<rparr>) \<and>
   TryLock (scripted (4, 0) (0, 2) (1, 0) (WaitTimeout, None) None)
     \<lparr>name = ''m'', thread = Some 0, handle = 4, locked = False\<rparr>
     \<lparr>world = (), threads = [\<lparr>cmds = True, done_ch = True, running = True\<rparr>], trace = []\<rparr> =
     (Returns False, \<lparr>name = ''m'', thread = Some 0, handle = 4, locked = False\<rparr>,
      \<lparr>world = (), threads = [\<lparr>cmds = True, done_ch = True, running = True\<rparr>],
       trace = [EvWaitForSingleObject 4 0 WaitTimeout None]\<rparr>)"
proof -
  let ?m = "\<lparr>name = ''m'', thread = Some 0, handle = 4, locked = False\<rparr>"
  let ?s = "\<lparr>world = (), threads = [\<lparr>cmds = True, done_ch = True, running = True\<rparr>],
             trace = []\<rparr> :: unit sys"
  have h1: "thread_open ?s (thread ?m)"
    by (simp add: thread_open_def deref_def)
  have h2: "procWaitForSingleObject (scripted (4, 0) (0, 2) (1, 0) (WaitObject0, None) None)
              (handle ?m) 0 (world ?s) = ((WaitObject0, None), ())"
    by (simp add: scripted_def)
  have h3: "procWaitForSingleObject (scripted (4, 0) (0, 2) (1, 0) (WaitTimeout, None) None)
              (handle ?m) 0 (world ?s) = ((WaitTimeout, None), ())"
    by (simp add: scripted_def)
  show ?thesis
    using TryLock_outcomes [OF h1 h2] TryLock_outcomes [OF h1 h3] by simp
qed

section \<open>Exists\<close>

text \<open>
  Claim C8: \<open>Exists\<close> returns false and nil exactly when \<open>OpenMutex\<close> returns the error
  \<open>ERROR_FILE_NOT_FOUND\<close>; it returns false and the error of \<open>OpenMutex\<close> when that is any
  other error; and when \<open>OpenMutex\<close> returns no error it returns true and nil, after a call
  of \<open>CloseHandle\<close> on the handle that \<open>OpenMutex\<close> returned.
\<close>

theorem Exists_outcomes:
  assumes "OpenMutex K nm s = ((h, err), s1)"
  shows "((fst (Exists K nm s) = (False, None)) = (err = Some (ErrnoError ERROR_FILE_NOT_FOUND))) \<and>
         (err = Some (ErrnoError ERROR_FILE_NOT_FOUND) \<longrightarrow> Exists K nm s = ((False, None), s1)) \<and>
         (err = Some e \<and> e \<noteq> ErrnoError ERROR_FILE_NOT_FOUND \<longrightarrow>
            Exists K nm s = ((False, Some e), s1)) \<and>
         (err = None \<and> procCloseHandle K h (world s1) = (cerr, w) \<longrightarrow>
            Exists K nm s =
              ((True, None), s1\<lparr>world := w, trace := trace s1 @ [EvCloseHandle h cerr]\<rparr>))"
proof -
  have a: "Exists K nm s = ((False, None), s1)" if "err = Some (ErrnoError ERROR_FILE_NOT_FOUND)"
    using assms that by (simp add: Exists_def)
  have b: "Exists K nm s = ((False, Some e), s1)"
    if "err = Some e \<and> e \<noteq> ErrnoError ERROR_FILE_NOT_FOUND"
    using assms that by (cases e) (simp_all add: Exists_def)
  have c: "Exists K nm s =
              ((True, None), s1\<lparr>world := w, trace := trace s1 @ [EvCloseHandle h cerr]\<rparr>)"
    if "err = None \<and> procCloseHandle K h (world s1) = (cerr, w)"
    using assms that by (simp add: Exists_def CloseHandle_def)
  have d: "(fst (Exists K nm s) = (False, None)) = (err = Some (ErrnoError ERROR_FILE_NOT_FOUND))"
  proof (cases err)
    case None
    obtain cerr' w' where "procCloseHandle K h (world s1) = (cerr', w')"
      by (cases "procCloseHandle K h (world s1)")
    with assms None show ?thesis by (simp add: Exists_def CloseHandle_def)
  next
    case (Some e')
    show ?thesis
    proof (cases "e' = ErrnoError ERROR_FILE_NOT_FOUND")
      case True
      with assms Some show ?thesis by (simp add: Exists_def)
    next
      case False
      with assms Some show ?thesis by (cases e') (simp_all add: Exists_def)
    qed
  qed
  from a b c d show ?thesis by blast
qed

theorem Exists_outcomes_witness:
  "Exists (scripted (4, 0) (0, 2) (1, 0) (0, None) None) ''m'' boot =
     ((False, None), \<lparr>world = (), threads = [], trace = [EvOpenMutex (Some ''m'') 0 2]\<rparr>) \<and>
   Exists (scripted (4, 0) (0, 5) (1, 0) (0, None) None) ''m'' boot =
     ((False, Some (ErrnoError 5)),
      \<lparr>world = (), threads = [], trace = [EvOpenMutex (Some ''m'') 0 5]\<rparr>) \<and>
   Exists (scripted (4, 0) (8, 0) (1, 0) (0, None) None) ''m'' boot =
     ((True, None),
      \<lparr>world = (), threads = [],
       trace = [EvOpenMutex (Some ''m'') 8 0, EvCloseHandle 8 None]\<rparr>)"
proof -
  let ?s2 = "\<lparr>world = (), threads = [], trace = [EvOpenMutex (Some ''m'') 0 2]\<rparr> :: unit sys"
  let ?s5 = "\<lparr>world = (), threads = [], trace = [EvOpenMutex (Some ''m'') 0 5]\<rparr> :: unit sys"
  let ?s8 = "\<lparr>world = (), threads = [], trace = [EvOpenMutex (Some ''m'') 8 0]\<rparr> :: unit sys"
  have o2: "OpenMutex (scripted (4, 0) (0, 2) (1, 0) (0, None) None) ''m'' boot =
              ((0, Some (ErrnoError ERROR_FILE_NOT_FOUND)), ?s2)"
    by (simp add: OpenMutex_def scripted_def boot_def MAX_PATH_def UTF16PtrFromString_def
        utf16Name_def ERROR_FILE_NOT_FOUND_def)
  have o5: "OpenMutex (scripted (4, 0) (0, 5) (1, 0) (0, None) None) ''m'' boot =
              ((0, Some (ErrnoError 5)), ?s5)"
    by (simp add: OpenMutex_def scripted_def boot_def MAX_PATH_def UTF16PtrFromString_def
        utf16Name_def)
  have o8: "OpenMutex (scripted (4, 0) (8, 0) (1, 0) (0, None) None) ''m'' boot =
              ((8, None), ?s8)"
    by (simp add: OpenMutex_def scripted_def boot_def MAX_PATH_def UTF16PtrFromString_def
        utf16Name_def)
  have h5: "Some (ErrnoError 5) = Some (ErrnoError 5) \<and>
            ErrnoError 5 \<noteq> ErrnoError ERROR_FILE_NOT_FOUND"
    by (simp add: ERROR_FILE_NOT_FOUND_def)
  have h8: "(None :: error option) = None \<and>
            procCloseHandle (scripted (4, 0) (8, 0) (1, 0) (0, None) None) 8 (world ?s8) =
              (None, ())"
    by (simp add: scripted_def)
  have a: "Exists (scripted (4, 0) (0, 2) (1, 0) (0, None) None) ''m'' boot = ((False, None), ?s2)"
    by (rule Exists_outcomes [OF o2, THEN conjunct2, THEN conjunct1, THEN mp, OF refl])
  have b: "Exists (scripted (4, 0) (0, 5) (1, 0) (0, None) None) ''m'' boot =
             ((False, Some (ErrnoError 5)), ?s5)"
    by (rule Exists_outcomes [OF o5, THEN conjunct2, THEN conjunct2, THEN conjunct1, THEN mp, OF h5])
  have c: "Exists (scripted (4, 0) (8, 0) (1, 0) (0, None) None) ''m'' boot =
             ((True, None), ?s8\<lparr>world := (), trace := trace ?s8 @ [EvCloseHandle 8 None]\<rparr>)"
    by (rule Exists_outcomes [OF o8, THEN conjunct2, THEN conjunct2, THEN conjunct2, THEN mp, OF h8])
  from a b c show ?thesis by simp
qed

section \<open>A failing New\<close>

lemma open_handles_snoc: "open_handles (tr @ [ev]) = handle_effect ev (open_handles tr)"
  by (simp add: open_handles_def)

lemma lockedthread_New_eq:
  "lockedthread_New s =
     (length (threads s),
      s\<lparr>threads := threads s @ [\<lparr>cmds = True, done_ch = True, running = True\<rparr>],
        trace := trace s @ [EvThreadStart (length (threads s))]\<rparr>)"
  by (simp add: lockedthread_New_def Let_def)

lemma thread_open_new:
  "threads s' = threads s @ [\<lparr>cmds = True, done_ch = True, running = True\<rparr>] \<Longrightarrow>
   thread_open s' (Some (length (threads s)))"
  by (simp add: thread_open_def deref_def)

lemma CreateMutex_world:
  "world s' = world s \<Longrightarrow> fst (CreateMutex K nm b s') = fst (CreateMutex K nm b s)"
  by (simp add: CreateMutex_def Let_def split: prod.splits)

lemma CreateMutex_threads: "threads (snd (CreateMutex K nm b s)) = threads s"
  by (simp add: CreateMutex_def Let_def split: prod.splits)

lemma CreateMutex_failure:
  assumes "fst (CreateMutex K nm b s) = (h, ex, Some e)"
    and "case procCreateMutex K b (utf16Name nm) (world s) of
           ((r0, e0), _) \<Rightarrow> create_result_documented r0 e0"
  shows "open_handles (trace (snd (CreateMutex K nm b s))) = open_handles (trace s)"
proof -
  obtain r0 e0 w where p: "procCreateMutex K b (utf16Name nm) (world s) = ((r0, e0), w)"
    by (cases "procCreateMutex K b (utf16Name nm) (world s)") auto
  with assms(2) have doc: "(r0 = 0) = (e0 \<noteq> 0 \<and> e0 \<noteq> ERROR_ALREADY_EXISTS)"
    by (simp add: create_result_documented_def)
  show ?thesis
  proof (cases "length nm + 1 \<ge> MAX_PATH \<or> (nm \<noteq> [] \<and> UTF16PtrFromString nm \<noteq> None)")
    case True
    then show ?thesis by (auto simp: CreateMutex_def)
  next
    case False
    with assms(1) p have "e0 \<noteq> 0 \<and> e0 \<noteq> ERROR_ALREADY_EXISTS"
      by (auto simp: CreateMutex_def Let_def split: if_splits)
    with doc have "r0 = 0" by simp
    with False p show ?thesis
      by (auto simp: CreateMutex_def Let_def open_handles_snoc)
  qed
qed

lemma allocated_threads_closed:
  "threads s' = threads s @ [\<lparr>cmds = False, done_ch = False, running = False\<rparr>] \<Longrightarrow>
   allocated_threads s' = allocated_threads s"
  by (auto simp: allocated_threads_def nth_append intro: filter_cong)

text \<open>
  Claim C2: when \<open>CreateMutex\<close> returns an error for the name, \<open>New\<close> returns a nil mutex
  and an error that wraps it. The thread that \<open>New\<close> started has been closed before \<open>New\<close>
  returns, so the threads that hold an operating system thread are those that held one
  before the call; and, the procedure returning the zero handle when it fails as the
  platform documents, the open handles are those that were open before the call.
\<close>

theorem New_failure:
  assumes "fst (CreateMutex K nm False s) = (h, ex, Some e)"
    and "case procCreateMutex K False (utf16Name nm) (world s) of
           ((r0, e0), _) \<Rightarrow> create_result_documented r0 e0"
  shows "fst (New K nm s) =
           Returns (None, Some (WrapError
             (''winmutex: failed to create '' @ mutexDescription nm @ '': '') e)) \<and>
         threads (snd (New K nm s)) =
           threads s @ [\<lparr>cmds = False, done_ch = False, running = False\<rparr>] \<and>
         allocated_threads (snd (New K nm s)) = allocated_threads s \<and>
         open_handles (trace (snd (New K nm s))) = open_handles (trace s)"
proof -
  let ?p = "length (threads s)"
  let ?s1 = "s\<lparr>threads := threads s @ [\<lparr>cmds = True, done_ch = True, running = True\<rparr>],
               trace := trace s @ [EvThreadStart ?p]\<rparr>"
  let ?s2 = "snd (CreateMutex K nm False ?s1)"
  let ?s3 = "?s2\<lparr>threads := (threads ?s2)[?p := \<lparr>cmds = False, done_ch = False, running = False\<rparr>],
                 trace := trace ?s2 @ [EvThreadExit ?p]\<rparr>"
  have new: "lockedthread_New s = (?p, ?s1)"
    by (rule lockedthread_New_eq)
  have open1: "thread_open ?s1 (Some ?p)"
    by (rule thread_open_new) simp
  have res: "fst (CreateMutex K nm False ?s1) = (h, ex, Some e)"
    using CreateMutex_world [of ?s1 s K nm False] assms(1) by simp
  have run: "Thread_Run (Some ?p) (CreateMutex K nm False) ?s1 = (Returns (h, ex, Some e), ?s2)"
    using Thread_Run_open [OF open1, of "CreateMutex K nm False"] res by simp
  have thr2: "threads ?s2 = threads s @ [\<lparr>cmds = True, done_ch = True, running = True\<rparr>]"
    using CreateMutex_threads [of K nm False ?s1] by simp
  have open2: "thread_open ?s2 (Some ?p)"
    using thr2 by (rule thread_open_new)
  have close: "Thread_Close (Some ?p) ?s2 = (Returns None, ?s3)"
    using open2 by (rule Thread_Close_open)
  have N: "New K nm s =
             (Returns (None, Some (WrapError
                (''winmutex: failed to create '' @ mutexDescription nm @ '': '') e)), ?s3)"
    unfolding New_def new using run close by simp
  have thr3: "threads ?s3 = threads s @ [\<lparr>cmds = False, done_ch = False, running = False\<rparr>]"
    using thr2 by simp
  have alloc: "allocated_threads ?s3 = allocated_threads s"
    using thr3 by (rule allocated_threads_closed)
  have doc1: "case procCreateMutex K False (utf16Name nm) (world ?s1) of
                ((r0, e0), _) \<Rightarrow> create_result_documented r0 e0"
    using assms(2) by simp
  have "open_handles (trace ?s2) = open_handles (trace ?s1)"
    using res doc1 by (rule CreateMutex_failure)
  then have hs: "open_handles (trace ?s3) = open_handles (trace s)"
    by (simp add: open_handles_snoc)
  show ?thesis
    unfolding N using thr3 alloc hs by simp
qed

theorem New_failure_witness:
  "New (scripted (0, 5) (0, 2) (1, 0) (0, None) None) ''m'' boot =
     (Returns (None, Some (WrapError
        (''winmutex: failed to create '' @ mutexDescription ''m'' @ '': '') (ErrnoError 5))),
      snd (New (scripted (0, 5) (0, 2) (1, 0) (0, None) None) ''m'' boot)) \<and>
   threads (snd (New (scripted (0, 5) (0, 2) (1, 0) (0, None) None) ''m'' boot)) =
     [\<lparr>cmds = False, done_ch = False, running = False\<rparr>] \<and>
   allocated_threads (snd (New (scripted (0, 5) (0, 2) (1, 0) (0, None) None) ''m'' boot)) = [] \<and>
   open_handles (trace (snd (New (scripted (0, 5) (0, 2) (1, 0) (0, None) None) ''m'' boot))) = []"
proof -
  let ?K = "scripted (0, 5) (0, 2) (1, 0) (0, None) None"
  have h1: "fst (CreateMutex ?K ''m'' False boot) = (0, False, Some (ErrnoError 5))"
    by (simp add: CreateMutex_def scripted_def boot_def MAX_PATH_def UTF16PtrFromString_def
        utf16Name_def ERROR_ALREADY_EXISTS_def)
  have h2: "case procCreateMutex ?K False (utf16Name ''m'') (world boot) of
              ((r0, e0), _) \<Rightarrow> create_result_documented r0 e0"
    by (simp add: scripted_def create_result_documented_def ERROR_ALREADY_EXISTS_def)
  have b: "allocated_threads boot = []" "open_handles (trace boot) = []" "threads boot = []"
    by (simp_all add: allocated_threads_def open_handles_def boot_def)
  note N = New_failure [OF h1 h2]
  from N have "fst (New ?K ''m'' boot) =
           Returns (None, Some (WrapError
             (''winmutex: failed to create '' @ mutexDescription ''m'' @ '': '') (ErrnoError 5)))"
    by (rule conjunct1)
  then have a: "New ?K ''m'' boot =
     (Returns (None, Some (WrapError
        (''winmutex: failed to create '' @ mutexDescription ''m'' @ '': '') (ErrnoError 5))),
      snd (New ?K ''m'' boot))"
    by (simp add: prod_eq_iff)
  from N b have c: "threads (snd (New ?K ''m'' boot)) =
     [\<lparr>cmds = False, done_ch = False, running = False\<rparr>] \<and>
     allocated_threads (snd (New ?K ''m'' boot)) = [] \<and>
     open_handles (trace (snd (New ?K ''m'' boot))) = []"
    by simp
  from a c show ?thesis by (rule conjI)
qed

section \<open>What the methods change in the struct\<close>

lemma Lock_struct:
  "fst (snd (Lock K m s)) = m \<or>
   (thread m \<noteq> None \<and> fst (snd (Lock K m s)) = m\<lparr>locked := True\<rparr>)"
proof (cases "thread m = None")
  case True
  then show ?thesis by (simp add: Lock_def)
next
  case False
  obtain x s1 where run:
    "Thread_Run (thread m) (WaitForSingleObject K (handle m) INFINITE) s = (x, s1)"
    by (cases "Thread_Run (thread m) (WaitForSingleObject K (handle m) INFINITE) s")
  show ?thesis
  proof (cases x)
    case (Panics p)
    with False run show ?thesis by (simp add: Lock_def)
  next
    case (Returns r)
    obtain ev err where r: "r = (ev, err)" by (cases r)
    with False run Returns show ?thesis by (cases err) (simp_all add: Lock_def)
  qed
qed

lemma TryLock_struct:
  "fst (snd (TryLock K m s)) = m \<or>
   (thread m \<noteq> None \<and> fst (snd (TryLock K m s)) = m\<lparr>locked := True\<rparr>)"
proof (cases "thread m = None")
  case True
  then show ?thesis by (simp add: TryLock_def)
next
  case False
  obtain x s1 where run:
    "Thread_Run (thread m) (WaitForSingleObject K (handle m) 0) s = (x, s1)"
    by (cases "Thread_Run (thread m) (WaitForSingleObject K (handle m) 0) s")
  show ?thesis
  proof (cases x)
    case (Panics p)
    with False run show ?thesis by (simp add: TryLock_def)
  next
    case (Returns r)
    obtain ev err where r: "r = (ev, err)" by (cases r)
    with False run Returns show ?thesis by (cases err) (simp_all add: TryLock_def)
  qed
qed

lemma Unlock_struct:
  "fst (snd (Unlock K m s)) = m \<or> fst (snd (Unlock K m s)) = m\<lparr>locked := False\<rparr>"
proof (cases "locked m")
  case False
  then show ?thesis by (simp add: Unlock_def)
next
  case True
  obtain x s1 where run: "Thread_Run (thread m) (ReleaseMutex K (handle m)) s = (x, s1)"
    by (cases "Thread_Run (thread m) (ReleaseMutex K (handle m)) s")
  show ?thesis
  proof (cases x)
    case (Panics p)
    with True run show ?thesis by (simp add: Unlock_def)
  next
    case (Returns r)
    obtain released err where r: "r = (released, err)" by (cases r)
    with True run Returns show ?thesis by (cases err) (simp_all add: Unlock_def)
  qed
qed

lemma Close_struct:
  "fst (snd (Close K m s)) = m \<or>
   fst (snd (Close K m s)) = m\<lparr>handle := 0, locked := False, thread := None\<rparr> \<or>
   (handle m = 0 \<and> fst (snd (Close K m s)) = m\<lparr>thread := None\<rparr>)"
proof (cases "thread m = None")
  case True
  then show ?thesis by (simp add: Close_def)
next
  case False
  show ?thesis
  proof (cases "handle m = 0")
    case True
    obtain r s2 where tc: "Thread_Close (thread m) s = (r, s2)"
      by (cases "Thread_Close (thread m) s")
    with False True show ?thesis
      by (cases r) (simp_all add: Close_def)
  next
    case h: False
    obtain x s1 where run: "Thread_Run (thread m) (Close_fn K m) s = (x, s1)"
      by (cases "Thread_Run (thread m) (Close_fn K m) s")
    show ?thesis
    proof (cases x)
      case (Panics p)
      with False h run show ?thesis by (simp add: Close_def)
    next
      case (Returns errs)
      obtain err1 err2 where errs: "errs = (err1, err2)" by (cases errs)
      from run Returns have "Thread_Run (thread m) (Close_fn K m) s = (Returns errs, s1)"
        by simp
      then have ro: "thread_open s (thread m) \<and> Close_fn K m s = (errs, s1)"
        by (rule Thread_Run_Returns)
      then have "threads s1 = threads s"
        using Close_fn_threads [of K m s] by simp
      with ro have o1: "thread_open s1 (thread m)"
        using thread_open_threads [of s1 s "thread m"] by simp
      then obtain p where p: "thread m = Some p"
        using thread_open_Some by blast
      from o1 p have "Thread_Close (Some p) s1 =
         (Returns None,
          s1\<lparr>threads := (threads s1)[p := \<lparr>cmds = False, done_ch = False, running = False\<rparr>],
             trace := trace s1 @ [EvThreadExit p]\<rparr>)"
        using Thread_Close_open [of s1 p] by simp
      with False h run Returns errs p show ?thesis
        by (simp add: Close_def)
    qed
  qed
qed

lemma call_step_inv: "mutex_inv m \<Longrightarrow> mutex_inv (fst (call_step K c (m, s)))"
proof (cases c)
  case CallLock
  assume "mutex_inv m"
  with CallLock Lock_struct [of K m s] show ?thesis
    by (auto simp: mutex_inv_def)
next
  case CallTryLock
  assume "mutex_inv m"
  with CallTryLock TryLock_struct [of K m s] show ?thesis
    by (auto simp: mutex_inv_def)
next
  case CallUnlock
  assume "mutex_inv m"
  with CallUnlock Unlock_struct [of K m s] show ?thesis
    by (auto simp: mutex_inv_def)
next
  case CallClose
  assume "mutex_inv m"
  with CallClose Close_struct [of K m s] show ?thesis
    by (auto simp: mutex_inv_def)
next
  case CallName
  assume "mutex_inv m"
  with CallName show ?thesis by simp
qed

lemma calls_inv: "mutex_inv (fst ms) \<Longrightarrow> mutex_inv (fst (calls K cs ms))"
proof (induction cs arbitrary: ms)
  case Nil
  then show ?case by simp
next
  case (Cons c cs)
  obtain m s where ms: "ms = (m, s)" by (cases ms)
  with Cons.prems have "mutex_inv (fst (call_step K c ms))"
    using call_step_inv [of m K c s] by simp
  then show ?case
    using Cons.IH [of "call_step K c ms"] by simp
qed

lemma call_step_name: "name (fst (call_step K c (m, s))) = name m"
proof (cases c)
  case CallLock
  with Lock_struct [of K m s] show ?thesis by auto
next
  case CallTryLock
  with TryLock_struct [of K m s] show ?thesis by auto
next
  case CallUnlock
  with Unlock_struct [of K m s] show ?thesis by auto
next
  case CallClose
  with Close_struct [of K m s] show ?thesis by auto
next
  case CallName
  then show ?thesis by simp
qed

lemma calls_name: "name (fst (calls K cs ms)) = name (fst ms)"
proof (induction cs arbitrary: ms)
  case Nil
  show ?case by simp
next
  case (Cons c cs)
  obtain m s where ms: "ms = (m, s)" by (cases ms)
  then have "name (fst (call_step K c ms)) = name (fst ms)"
    using call_step_name [of K c m s] by simp
  then show ?case
    using Cons.IH [of "call_step K c ms"] by simp
qed

section \<open>The mutex that New returns\<close>

lemma CreateMutex_success:
  assumes "fst (CreateMutex K nm b s) = (h, ex, None)"
    and "case procCreateMutex K b (utf16Name nm) (world s) of
           ((r0, e0), _) \<Rightarrow> create_result_documented r0 e0"
  shows "h \<noteq> 0"
proof -
  obtain r0 e0 w where p: "procCreateMutex K b (utf16Name nm) (world s) = ((r0, e0), w)"
    by (cases "procCreateMutex K b (utf16Name nm) (world s)") auto
  with assms(2) have doc: "(r0 = 0) = (e0 \<noteq> 0 \<and> e0 \<noteq> ERROR_ALREADY_EXISTS)"
    by (simp add: create_result_documented_def)
  have pre: "\<not> (length nm + 1 \<ge> MAX_PATH \<or> (nm \<noteq> [] \<and> UTF16PtrFromString nm \<noteq> None))"
  proof
    assume "length nm + 1 \<ge> MAX_PATH \<or> (nm \<noteq> [] \<and> UTF16PtrFromString nm \<noteq> None)"
    with assms(1) show False by (auto simp: CreateMutex_def split: if_splits)
  qed
  with assms(1) p have "h = r0 \<and> (e0 = 0 \<or> e0 = ERROR_ALREADY_EXISTS)"
    by (auto simp: CreateMutex_def Let_def split: if_splits)
  with doc show ?thesis by auto
qed

lemma New_Returns:
  assumes "New K nm s = (Returns (Some m, err), s1)"
  shows "\<exists>h ex. fst (CreateMutex K nm False s) = (h, ex, None) \<and>
           m = \<lparr>name = nm, thread = Some (length (threads s)), handle = h, locked = False\<rparr>"
proof -
  let ?p = "length (threads s)"
  let ?s1 = "s\<lparr>threads := threads s @ [\<lparr>cmds = True, done_ch = True, running = True\<rparr>],
               trace := trace s @ [EvThreadStart ?p]\<rparr>"
  let ?s2 = "snd (CreateMutex K nm False ?s1)"
  obtain h ex e where res: "fst (CreateMutex K nm False s) = (h, ex, e)"
    by (cases "fst (CreateMutex K nm False s)")
  have new: "lockedthread_New s = (?p, ?s1)"
    by (rule lockedthread_New_eq)
  have open1: "thread_open ?s1 (Some ?p)"
    by (rule thread_open_new) simp
  have res1: "fst (CreateMutex K nm False ?s1) = (h, ex, e)"
    using CreateMutex_world [of ?s1 s K nm False] res by simp
  have run: "Thread_Run (Some ?p) (CreateMutex K nm False) ?s1 = (Returns (h, ex, e), ?s2)"
    using Thread_Run_open [OF open1, of "CreateMutex K nm False"] res1 by simp
  show ?thesis
  proof (cases e)
    case None
    with assms new run res show ?thesis
      by (auto simp: New_def)
  next
    case (Some e')
    obtain r s3 where tc: "Thread_Close (Some ?p) ?s2 = (r, s3)"
      by (cases "Thread_Close (Some ?p) ?s2")
    with assms new run Some have False
      by (cases r) (simp_all add: New_def)
    then show ?thesis ..
  qed
qed

lemma New_named_run:
  "New (scripted (4, 0) (0, 2) (1, 0) (0, None) None) ''m'' boot =
     (Returns (Some \<lparr>name = ''m'', thread = Some 0, handle = 4, locked = False\<rparr>, None),
      \<lparr>world = (), threads = [\<lparr>cmds = True, done_ch = True, running = True\<rparr>],
       trace = [EvThreadStart 0, EvCreateMutex False (Some ''m'') 4 0]\<rparr>)"
  by (simp add: New_def lockedthread_New_def Thread_Run_def deref_def CreateMutex_def
      scripted_def boot_def utf16Name_def UTF16PtrFromString_def MAX_PATH_def
      ERROR_ALREADY_EXISTS_def)

lemma New_unnamed_run:
  "New (scripted (4, 0) (0, 2) (1, 0) (0, None) None) [] boot =
     (Returns (Some \<lparr>name = [], thread = Some 0, handle = 4, locked = False\<rparr>, None),
      \<lparr>world = (), threads = [\<lparr>cmds = True, done_ch = True, running = True\<rparr>],
       trace = [EvThreadStart 0, EvCreateMutex False None 4 0]\<rparr>)"
  by (simp add: New_def lockedthread_New_def Thread_Run_def deref_def CreateMutex_def
      scripted_def boot_def utf16Name_def UTF16PtrFromString_def MAX_PATH_def
      ERROR_ALREADY_EXISTS_def)

text \<open>
  Claim C9: every method keeps the invariant of the struct: a locked mutex has a handle
  other than zero and a thread, and the handle is zero exactly when the thread is nil. The
  mutex that \<open>New\<close> returns satisfies it, the procedure returning a handle other than zero
  when it succeeds as the platform documents, and so does the struct after every sequence
  of calls of \<open>Lock\<close>, \<open>TryLock\<close>, \<open>Unlock\<close>, \<open>Close\<close> and \<open>Name\<close> on that mutex.
\<close>

theorem mutex_inv_preserved:
  "(mutex_inv m \<longrightarrow> mutex_inv (fst (call_step K c (m, s)))) \<and>
   (New K nm s0 = (Returns (Some m0, err), s1) \<and>
    (case procCreateMutex K False (utf16Name nm) (world s0) of
       ((r0, e0), _) \<Rightarrow> create_result_documented r0 e0) \<longrightarrow>
      mutex_inv m0 \<and> mutex_inv (fst (calls K cs (m0, s1))))"
proof -
  have a: "mutex_inv (fst (call_step K c (m, s)))" if "mutex_inv m"
    using that by (rule call_step_inv)
  have b: "mutex_inv m0 \<and> mutex_inv (fst (calls K cs (m0, s1)))"
    if h: "New K nm s0 = (Returns (Some m0, err), s1) \<and>
        (case procCreateMutex K False (utf16Name nm) (world s0) of
           ((r0, e0), _) \<Rightarrow> create_result_documented r0 e0)"
  proof -
    from h have n: "New K nm s0 = (Returns (Some m0, err), s1)"
      by (rule conjunct1)
    from h have doc: "case procCreateMutex K False (utf16Name nm) (world s0) of
           ((r0, e0), _) \<Rightarrow> create_result_documented r0 e0"
      by (rule conjunct2)
    from n obtain h' ex where c: "fst (CreateMutex K nm False s0) = (h', ex, None)"
      and m0: "m0 = \<lparr>name = nm, thread = Some (length (threads s0)), handle = h', locked = False\<rparr>"
      using New_Returns by blast
    from c doc have "h' \<noteq> 0" by (rule CreateMutex_success)
    with m0 have i: "mutex_inv m0" by (simp add: mutex_inv_def)
    then have "mutex_inv (fst (calls K cs (m0, s1)))"
      using calls_inv [of "(m0, s1)" K cs] by simp
    with i show ?thesis ..
  qed
  from a b show ?thesis by blast
qed

theorem mutex_inv_preserved_witness:
  "mutex_inv \<lparr>name = ''m'', thread = Some 0, handle = 4, locked = False\<rparr> \<and>
   mutex_inv (fst (call_step (scripted (4, 0) (0, 2) (1, 0) (0, None) None) CallLock
     (\<lparr>name = ''m'', thread = Some 0, handle = 4, locked = False\<rparr>,
      \<lparr>world = (), threads = [\<lparr>cmds = True, done_ch = True, running = True\<rparr>],
       trace = [EvThreadStart 0, EvCreateMutex False (Some ''m'') 4 0]\<rparr>))) \<and>
   mutex_inv (fst (calls (scripted (4, 0) (0, 2) (1, 0) (0, None) None)
     [CallLock, CallName, CallClose, CallUnlock, CallClose]
     (\<lparr>name = ''m'', thread = Some 0, handle = 4, locked = False\<rparr>,
      \<lparr>world = (), threads = [\<lparr>cmds = True, done_ch = True, running = True\<rparr>],
       trace = [EvThreadStart 0, EvCreateMutex False (Some ''m'') 4 0]\<rparr>)))"
proof -
  let ?K = "scripted (4, 0) (0, 2) (1, 0) (0, None) None"
  have doc: "case procCreateMutex ?K False (utf16Name ''m'') (world boot) of
               ((r0, e0), _) \<Rightarrow> create_result_documented r0 e0"
    by (simp add: scripted_def create_result_documented_def ERROR_ALREADY_EXISTS_def)
  note I = mutex_inv_preserved [where K = ?K and nm = "''m''" and ?s0.0 = boot]
  have b: "mutex_inv \<lparr>name = ''m'', thread = Some 0, handle = 4, locked = False\<rparr> \<and>
     mutex_inv (fst (calls ?K [CallLock, CallName, CallClose, CallUnlock, CallClose]
       (\<lparr>name = ''m'', thread = Some 0, handle = 4, locked = False\<rparr>,
        \<lparr>world = (), threads = [\<lparr>cmds = True, done_ch = True, running = True\<rparr>],
         trace = [EvThreadStart 0, EvCreateMutex False (Some ''m'') 4 0]\<rparr>)))"
    by (rule I [THEN conjunct2, THEN mp, OF conjI [OF New_named_run doc]])
  then have i: "mutex_inv \<lparr>name = ''m'', thread = Some 0, handle = 4, locked = False\<rparr>"
    by (rule conjunct1)
  have a: "mutex_inv (fst (call_step ?K CallLock
     (\<lparr>name = ''m'', thread = Some 0, handle = 4, locked = False\<rparr>,
      \<lparr>world = (), threads = [\<lparr>cmds = True, done_ch = True, running = True\<rparr>],
       trace = [EvThreadStart 0, EvCreateMutex False (Some ''m'') 4 0]\<rparr>)))"
    by (rule I [THEN conjunct1, THEN mp, OF i])
  from b a show ?thesis by blast
qed

text \<open>
  Claim C10: \<open>Name\<close> is a function of the struct alone. It takes no state of the process
  and returns none, and it returns the name given to \<open>New\<close>: for the mutex that \<open>New\<close> returns,
  after every sequence of calls on that mutex, and after \<open>Close\<close> on any mutex, which does
  not assign the field.
\<close>

theorem Name_is_name_given:
  "(New K nm s0 = (Returns (Some m0, err), s1) \<longrightarrow>
      Name m0 = nm \<and> Name (fst (calls K cs (m0, s1))) = nm) \<and>
   Name (fst (snd (Close K m s))) = Name m \<and>
   Name (fst (call_step K c (m, s))) = Name m"
proof -
  have a: "Name m0 = nm \<and> Name (fst (calls K cs (m0, s1))) = nm"
    if n: "New K nm s0 = (Returns (Some m0, err), s1)"
  proof -
    from n obtain h' ex where
      m0: "m0 = \<lparr>name = nm, thread = Some (length (threads s0)), handle = h', locked = False\<rparr>"
      using New_Returns by blast
    then have "name m0 = nm" by simp
    then show ?thesis
      using calls_name [of K cs "(m0, s1)"] by (simp add: Name_def)
  qed
  have b: "Name (fst (snd (Close K m s))) = Name m"
    using call_step_name [of K CallClose m s] by (simp add: Name_def)
  have c: "Name (fst (call_step K c (m, s))) = Name m"
    using call_step_name [of K c m s] by (simp add: Name_def)
  from a b c show ?thesis by blast
qed

theorem Name_is_name_given_witness:
  "Name \<lparr>name = [], thread = Some 0, handle = 4, locked = False\<rparr> = [] \<and>
   Name (fst (calls (scripted (4, 0) (0, 2) (1, 0) (0, None) None)
     [CallLock, CallClose, CallName, CallClose]
     (\<lparr>name = [], thread = Some 0, handle = 4, locked = False\<rparr>,
      \<lparr>world = (), threads = [\<lparr>cmds = True, done_ch = True, running = True\<rparr>],
       trace = [EvThreadStart 0, EvCreateMutex False None 4 0]\<rparr>))) = []"
  by (rule Name_is_name_given [THEN conjunct1, THEN mp, OF New_unnamed_run])

end
